theory Spec2Isabelle
  imports Complex_Main
begin

section \<open>The prediction pipeline of \<open>flask/app.py\<close>\<close>

text \<open>
  The theory embeds the two functions of \<open>src/flask/app.py\<close> that carry the pipeline,
  \<open>get_history_features\<close> (lines 50-78) and the POST branch of \<open>index\<close> (lines 130-186),
  together with the module-level loading of the historical data (lines 22-27).

  Conventions of the embedding:
  \<^item> a Python exception is a value of \<open>error\<close>; a computation that may raise returns
    \<open>error + 'a\<close>, with \<open>Inl\<close> for the exception;
  \<^item> Python floats are idealised as \<open>real\<close>: rounding, infinities and NaN are not modelled;
  \<^item> a Python \<open>str\<close> is a \<open>string\<close>, its characters read as the code points 0..255;
  \<^item> a Python \<open>dict\<close> with string keys is a map \<open>string \<rightharpoonup> 'v\<close>;
  \<^item> the module globals \<open>student_data_df\<close>, \<open>FEATURES\<close>, \<open>model\<close> and the builtins
    \<open>int\<close>, \<open>float\<close> are the fields of an environment record, so that every statement
    holds for whatever was loaded at start-up;
  \<^item> logging and the time stamp are left out.
\<close>

subsection \<open>Exceptions\<close>

datatype error = KeyError | ValueError | IndexError | ClassifierError

text \<open>Sequencing of computations that may raise: the first exception wins.\<close>

definition bind_err :: "error + 'a \<Rightarrow> ('a \<Rightarrow> error + 'b) \<Rightarrow> error + 'b" where
  "bind_err m f = (case m of Inl e \<Rightarrow> Inl e | Inr x \<Rightarrow> f x)"

subsection \<open>Strings\<close>

text \<open>
  \<open>str.strip()\<close> and \<open>str.split()\<close> without arguments work on the characters for which
  \<open>str.isspace\<close> holds: below 256 these are 9..13, 28..32, 133 and 160.
\<close>

definition is_space :: "char \<Rightarrow> bool" where
  "is_space c =
     (let n = (of_char c :: nat)
      in (9 \<le> n \<and> n \<le> 13) \<or> (28 \<le> n \<and> n \<le> 32) \<or> n = 133 \<or> n = 160)"

definition py_strip :: "string \<Rightarrow> string" where
  "py_strip s = rev (dropWhile is_space (rev (dropWhile is_space s)))"

text \<open>
  \<open>s.split()\<close>: skip white space; when nothing is left the list ends; otherwise the next
  word is the longest run of characters that are not white space.
\<close>

function py_split :: "string \<Rightarrow> string list" where
  "py_split s =
     (case dropWhile is_space s of
        [] \<Rightarrow> []
      | c # cs \<Rightarrow> (c # takeWhile (\<lambda>x. \<not> is_space x) cs)
                   # py_split (dropWhile (\<lambda>x. \<not> is_space x) cs))"
  by pat_completeness auto
termination
proof (relation "measure length")
  show "wf (measure length)" by simp
next
  fix s :: string and c cs
  assume a: "dropWhile is_space s = c # cs"
  have "length (dropWhile (\<lambda>x. \<not> is_space x) cs) \<le> length cs"
    by (rule length_dropWhile_le)
  also have "length cs < length (dropWhile is_space s)"
    by (simp add: a)
  also have "length (dropWhile is_space s) \<le> length s"
    by (rule length_dropWhile_le)
  finally show "(dropWhile (\<lambda>x. \<not> is_space x) cs, s) \<in> measure length"
    by simp
qed

declare py_split.simps [simp del]

text \<open>\<open>s.startswith(p)\<close>.\<close>

definition startswith :: "string \<Rightarrow> string \<Rightarrow> bool" where
  "startswith s p = (take (length p) s = p)"

text \<open>Truth value of an optional string: \<open>None\<close> and the empty string are false.\<close>

definition truthy :: "string option \<Rightarrow> bool" where
  "truthy x = (case x of None \<Rightarrow> False | Some s \<Rightarrow> s \<noteq> [])"

subsection \<open>The historical data\<close>

text \<open>One row of the historical table, with the columns the code reads.\<close>

record hist_row =
  student_id :: int
  course_code :: string
  has_prerequisites :: bool
  total_score :: real
  midterm_score :: real
  final_score :: real
  assignment_score :: real
  attendance_rate :: real
  passed :: bool

text \<open>
  A data frame is either \<open>pd.DataFrame()\<close>, which has no rows and no columns, or a table
  read from the CSV file, which has the columns of \<open>hist_row\<close>.
\<close>

datatype dataframe = EmptyDataFrame | Table "hist_row list"

text \<open>
  Lines 22-27: \<open>pd.read_csv\<close> either gives the table or raises; the handler then binds
  \<open>student_data_df\<close> to \<open>pd.DataFrame()\<close>.
\<close>

definition load_student_data :: "error + hist_row list \<Rightarrow> dataframe" where
  "load_student_data read_csv =
     (case read_csv of Inl e \<Rightarrow> EmptyDataFrame | Inr rows \<Rightarrow> Table rows)"

text \<open>
  \<open>Series.mean()\<close> of a numeric column. On an empty column pandas gives NaN, which the
  idealised floats do not have; HOL's \<open>x / 0 = 0\<close> stands in for it, and lemma
  \<open>past_rows_nonempty\<close> below shows that the unguarded means are never taken over an
  empty column.
\<close>

definition mean :: "real list \<Rightarrow> real" where
  "mean xs = sum_list xs / real (length xs)"

text \<open>The mean of a Boolean column counts \<open>True\<close> as 1 and \<open>False\<close> as 0.\<close>

definition mean_bool :: "bool list \<Rightarrow> real" where
  "mean_bool bs = mean (map of_bool bs)"

subsection \<open>The environment\<close>

type_synonym feats = "string \<rightharpoonup> real"

text \<open>
  \<open>model\<close> stands for \<open>model.predict_proba(df_in)[:,1][0]\<close>: it receives the single row
  of the frame as the list of its named columns and returns the probability of the
  positive class, or raises. \<open>to_int\<close> and \<open>to_float\<close> stand for \<open>int(s)\<close> and
  \<open>float(s)\<close> on a form value.
\<close>

record env =
  student_data_df :: dataframe
  FEATURES :: "string list"
  model :: "(string \<times> real) list \<Rightarrow> error + real"
  to_int :: "string \<Rightarrow> error + int"
  to_float :: "string \<Rightarrow> error + real"

text \<open>The hard-coded feature list of lines 39-45.\<close>

definition default_features :: "string list" where
  "default_features =
     [''has_prerequisites'', ''credits'', ''attendance_rate'',
      ''midterm_score'', ''final_score'', ''assignment_score'',
      ''past_avg_total_score'', ''past_avg_midterm_score'', ''past_avg_final_score'',
      ''past_avg_assignment_score'', ''past_avg_attendance'', ''past_pass_rate'',
      ''courses_taken'', ''dept_pass_rate'', ''prereq_avg_score'', ''prereq_pass_rate'']"

subsection \<open>\<open>get_history_features\<close>\<close>

text \<open>Line 54: the condition of the comprehension.\<close>

definition is_history_key :: "string \<Rightarrow> bool" where
  "is_history_key k =
     (startswith k ''past_'' \<or>
      k \<in> set [''courses_taken'', ''dept_pass_rate'', ''prereq_avg_score'', ''prereq_pass_rate''])"

text \<open>Line 54: \<open>{k: 0 for k in FEATURES if ...}\<close>.\<close>

definition zero_fill :: "string list \<Rightarrow> feats" where
  "zero_fill fs = map_of (map (\<lambda>k. (k, 0)) (filter is_history_key fs))"

text \<open>Lines 55-57: the rows of other courses, or all rows when there are none.\<close>

definition past_rows :: "hist_row list \<Rightarrow> string option \<Rightarrow> hist_row list" where
  "past_rows recs code =
     (let past = (case code of
                    None \<Rightarrow> recs
                  | Some c \<Rightarrow> filter (\<lambda>r. course_code r \<noteq> c) recs)
      in if past = [] then recs else past)"

text \<open>Lines 58-66: the dictionary literal.\<close>

definition base_feats :: "hist_row list \<Rightarrow> feats" where
  "base_feats past =
     [''past_avg_total_score'' \<mapsto> mean (map total_score past),
      ''past_avg_midterm_score'' \<mapsto> mean (map midterm_score past),
      ''past_avg_final_score'' \<mapsto> mean (map final_score past),
      ''past_avg_assignment_score'' \<mapsto> mean (map assignment_score past),
      ''past_avg_attendance'' \<mapsto> mean (map attendance_rate past),
      ''past_pass_rate'' \<mapsto> mean_bool (map passed past),
      ''courses_taken'' \<mapsto> real (length past)]"

text \<open>
  Lines 68-73. \<open>course_code.split()[0]\<close> raises IndexError when the split is empty, which
  happens for a non-empty code of white space only.
\<close>

definition dept_pass_rate :: "hist_row list \<Rightarrow> string option \<Rightarrow> error + real" where
  "dept_pass_rate past code =
     (if truthy code then
        (case py_split (the code) of
           [] \<Rightarrow> Inl IndexError
         | dept # ws \<Rightarrow>
             (let dept_past = filter (\<lambda>r. startswith (course_code r) dept) past
              in Inr (if dept_past \<noteq> [] then mean_bool (map passed dept_past)
                      else mean_bool (map passed past))))
      else Inr (mean_bool (map passed past)))"

text \<open>Lines 75-77: the two prerequisite features, added to the dictionary.\<close>

definition prereq_feats :: "hist_row list \<Rightarrow> feats \<Rightarrow> feats" where
  "prereq_feats past fs =
     (let prereq_past = filter has_prerequisites past
      in fs(''prereq_avg_score'' \<mapsto>
              (if prereq_past \<noteq> [] then mean (map total_score prereq_past)
               else mean (map total_score past)),
            ''prereq_pass_rate'' \<mapsto>
              (if prereq_past \<noteq> [] then mean_bool (map passed prereq_past)
               else mean_bool (map passed past))))"

text \<open>
  Lines 50-78. \<open>df['student_id']\<close> raises KeyError on the frame without columns.
\<close>

definition get_history_features :: "env \<Rightarrow> int \<Rightarrow> string option \<Rightarrow> error + feats" where
  "get_history_features ev sid code =
     (case student_data_df ev of
        EmptyDataFrame \<Rightarrow> Inl KeyError
      | Table df \<Rightarrow>
          (let recs = filter (\<lambda>r. student_id r = sid) df
           in if recs = [] then Inr (zero_fill (FEATURES ev))
              else
                (let past = past_rows recs code
                 in bind_err (dept_pass_rate past code)
                      (\<lambda>d. Inr (prereq_feats past
                                   ((base_feats past)(''dept_pass_rate'' \<mapsto> d)))))))"

subsection \<open>\<open>index\<close>\<close>

type_synonym form = "string \<rightharpoonup> string"

text \<open>\<open>request.form[k]\<close> raises (a subclass of) KeyError when the field is missing.\<close>

definition form_item :: "form \<Rightarrow> string \<Rightarrow> error + string" where
  "form_item f k = (case f k of None \<Rightarrow> Inl KeyError | Some s \<Rightarrow> Inr s)"

text \<open>Lines 136-140: the required fields, read and converted in this order.\<close>

definition required_fields :: "env \<Rightarrow> form \<Rightarrow> error + (int \<times> string \<times> int \<times> real \<times> real)" where
  "required_fields ev f =
     bind_err (bind_err (form_item f ''student_id'') (to_int ev)) (\<lambda>sid.
     bind_err (form_item f ''course_code'') (\<lambda>c.
     bind_err (bind_err (form_item f ''has_prerequisites'') (to_int ev)) (\<lambda>pre.
     bind_err (bind_err (form_item f ''credits'') (to_float ev)) (\<lambda>cr.
     bind_err (bind_err (form_item f ''attendance'') (to_float ev)) (\<lambda>att.
     Inr (sid, py_strip c, pre, cr, att))))))"

text \<open>
  Lines 151-153: \<open>float(x) if x else hist[k]\<close>, where \<open>x = request.form.get(...)\<close>;
  \<open>hist[k]\<close> raises KeyError when the key is missing.
\<close>

definition score_or_history :: "env \<Rightarrow> string option \<Rightarrow> feats \<Rightarrow> string \<Rightarrow> error + real" where
  "score_or_history ev x hist k =
     (if truthy x then to_float ev (the x)
      else (case hist k of None \<Rightarrow> Inl KeyError | Some v \<Rightarrow> Inr v))"

text \<open>
  Lines 136-167: the merged record \<open>data\<close>. The entries of \<open>hist\<close> come last in the
  dictionary literal, so they win over the six current-term entries.
\<close>

definition merged_record :: "env \<Rightarrow> form \<Rightarrow> error + feats" where
  "merged_record ev f =
     bind_err (required_fields ev f) (\<lambda>(sid, code, pre, cr, att).
     bind_err (get_history_features ev sid (Some code)) (\<lambda>hist.
     bind_err (score_or_history ev (f ''midterm'') hist ''past_avg_midterm_score'') (\<lambda>mid.
     bind_err (score_or_history ev (f ''final'') hist ''past_avg_final_score'') (\<lambda>fin.
     bind_err (score_or_history ev (f ''assignment'') hist ''past_avg_assignment_score'') (\<lambda>asm.
     Inr ([''has_prerequisites'' \<mapsto> of_int pre,
           ''credits'' \<mapsto> cr,
           ''attendance_rate'' \<mapsto> att,
           ''midterm_score'' \<mapsto> mid,
           ''final_score'' \<mapsto> fin,
           ''assignment_score'' \<mapsto> asm] ++ hist))))))"

text \<open>
  Line 170: \<open>pd.DataFrame(data)[FEATURES]\<close> selects the listed columns in the order of
  the list and raises KeyError when one of them is missing.
\<close>

fun select_columns :: "feats \<Rightarrow> string list \<Rightarrow> error + (string \<times> real) list" where
  "select_columns data [] = Inr []"
| "select_columns data (k # ks) =
     (case data k of
        None \<Rightarrow> Inl KeyError
      | Some v \<Rightarrow> bind_err (select_columns data ks) (\<lambda>row. Inr ((k, v) # row)))"

text \<open>Line 174.\<close>

definition classify :: "real \<Rightarrow> string" where
  "classify proba = (if proba \<ge> 0.5 then ''Yes'' else ''No'')"

text \<open>Lines 136-170: the frame handed to the classifier.\<close>

definition feature_frame :: "env \<Rightarrow> form \<Rightarrow> error + (string \<times> real) list" where
  "feature_frame ev f =
     bind_err (merged_record ev f) (\<lambda>data. select_columns data (FEATURES ev))"

text \<open>Lines 136-178: the body of the \<open>try\<close> statement.\<close>

definition try_body :: "env \<Rightarrow> form \<Rightarrow> error + (string \<times> real)" where
  "try_body ev f =
     bind_err (feature_frame ev f) (\<lambda>df_in.
     bind_err (model ev df_in) (\<lambda>proba.
     Inr (classify proba, proba)))"

text \<open>What the template is rendered with: the two variables and the flashed messages.\<close>

record response =
  prediction :: "string option"
  probability :: "real option"
  flashed :: "string list"

datatype http_method = GET | POST

text \<open>Lines 130-186. Every exception of the body is caught by \<open>except Exception\<close>.\<close>

definition index :: "env \<Rightarrow> http_method \<Rightarrow> form \<Rightarrow> response" where
  "index ev m f =
     (if m = POST then
        (case try_body ev f of
           Inr (label, proba) \<Rightarrow>
             \<lparr>prediction = Some label, probability = Some proba, flashed = []\<rparr>
         | Inl e \<Rightarrow>
             \<lparr>prediction = None, probability = None,
              flashed = [''Error during prediction. Please check inputs.'']\<rparr>)
      else \<lparr>prediction = None, probability = None, flashed = []\<rparr>)"

subsection \<open>The history-derived feature names\<close>

text \<open>The ten keys written by lines 58-77 of \<open>get_history_features\<close>.\<close>

definition history_keys :: "string list" where
  "history_keys =
     [''past_avg_total_score'', ''past_avg_midterm_score'', ''past_avg_final_score'',
      ''past_avg_assignment_score'', ''past_avg_attendance'', ''past_pass_rate'',
      ''courses_taken'', ''dept_pass_rate'', ''prereq_avg_score'', ''prereq_pass_rate'']"

subsection \<open>Concrete environments and requests\<close>

text \<open>
  The general statements below hold for every environment. Their closed instances use the
  following one. Its conversions read a plain decimal numeral, with an optional minus
  sign, on which \<open>int\<close> and \<open>float\<close> give the same number; its classifier answers
  with the probability one half whatever the row.
\<close>

fun digits_value :: "string \<Rightarrow> nat \<Rightarrow> nat option" where
  "digits_value [] acc = Some acc"
| "digits_value (c # cs) acc =
     (let n = (of_char c :: nat)
      in if 48 \<le> n \<and> n \<le> 57 then digits_value cs (10 * acc + (n - 48)) else None)"

definition decimal_int :: "string \<Rightarrow> error + int" where
  "decimal_int s =
     (case s of
        [] \<Rightarrow> Inl ValueError
      | c # cs \<Rightarrow>
          if c = CHR ''-'' then
            (if cs = [] then Inl ValueError
             else (case digits_value cs 0 of
                     None \<Rightarrow> Inl ValueError
                   | Some n \<Rightarrow> Inr (- int n)))
          else (case digits_value s 0 of
                  None \<Rightarrow> Inl ValueError
                | Some n \<Rightarrow> Inr (int n)))"

definition decimal_float :: "string \<Rightarrow> error + real" where
  "decimal_float s = (case decimal_int s of Inl e \<Rightarrow> Inl e | Inr n \<Rightarrow> Inr (of_int n))"

text \<open>A record of student 42 in the course MATH 201.\<close>

definition math_row :: "bool \<Rightarrow> real \<Rightarrow> real \<Rightarrow> real \<Rightarrow> real \<Rightarrow> real \<Rightarrow> bool \<Rightarrow> hist_row" where
  "math_row h t m f a att p =
     \<lparr>student_id = 42, course_code = ''MATH 201'', has_prerequisites = h,
      total_score = t, midterm_score = m, final_score = f, assignment_score = a,
      attendance_rate = att, passed = p\<rparr>"

definition math_rows :: "hist_row list" where
  "math_rows = [math_row True 70 65 75 70 90 True, math_row False 40 35 45 40 60 False]"

definition scenario_env :: env where
  "scenario_env =
     \<lparr>student_data_df = Table math_rows,
      FEATURES = default_features,
      model = (\<lambda>row. Inr (1 / 2)),
      to_int = decimal_int,
      to_float = decimal_float\<rparr>"

text \<open>A request for MATH 201 by a given student, with the three optional scores left out.\<close>

definition request_of :: "string \<Rightarrow> form" where
  "request_of sid =
     [''student_id'' \<mapsto> sid, ''course_code'' \<mapsto> ''MATH 201'',
      ''has_prerequisites'' \<mapsto> ''1'', ''credits'' \<mapsto> ''3'', ''attendance'' \<mapsto> ''80'']"

text \<open>A feature list without the three \<open>past_avg_*\<close> score names of the backfill.\<close>

definition short_features :: "string list" where
  "short_features =
     [''has_prerequisites'', ''credits'', ''attendance_rate'',
      ''midterm_score'', ''final_score'', ''assignment_score'',
      ''past_pass_rate'', ''courses_taken'']"

definition short_env :: env where
  "short_env = scenario_env\<lparr>FEATURES := short_features\<rparr>"

text \<open>
  Student 5 has passed CS 101 and MATH 201 and failed CS 202; student 6 has one record,
  in HIST 100.
\<close>

definition plain_row :: "int \<Rightarrow> string \<Rightarrow> bool \<Rightarrow> hist_row" where
  "plain_row sid c p =
     \<lparr>student_id = sid, course_code = c, has_prerequisites = False,
      total_score = 50, midterm_score = 50, final_score = 50, assignment_score = 50,
      attendance_rate = 50, passed = p\<rparr>"

definition mixed_rows :: "hist_row list" where
  "mixed_rows =
     [plain_row 5 ''CS 101'' True, plain_row 6 ''HIST 100'' True,
      plain_row 5 ''CS 202'' False, plain_row 5 ''MATH 201'' True]"

definition mixed_env :: env where
  "mixed_env = scenario_env\<lparr>student_data_df := Table mixed_rows\<rparr>"

text \<open>A feature list with a name that no step of the pipeline writes.\<close>

definition odd_env :: env where
  "odd_env = scenario_env\<lparr>FEATURES := [''credits'', ''gpa'']\<rparr>"

text \<open>A classifier that answers with the probability one fifth.\<close>

definition low_env :: env where
  "low_env = scenario_env\<lparr>model := (\<lambda>row. Inr (1 / 5))\<rparr>"

text \<open>
  A feature list with the name \<open>past_gpa\<close>, which starts with \<open>past_\<close> and is not one
  of the ten history-derived names.
\<close>

definition gpa_env :: env where
  "gpa_env = scenario_env\<lparr>FEATURES := [''credits'', ''past_gpa'', ''courses_taken'']\<rparr>"

subsection \<open>Notions of the specification\<close>

text \<open>
  The department token as the specification words it: the substring of the course code
  before the first space.
\<close>

definition department_token :: "string \<Rightarrow> string" where
  "department_token c = takeWhile (\<lambda>x. x \<noteq> CHR '' '') c"

text \<open>
  A course code names a department when that token is a word: it is not empty and has
  no white space in it. Codes of the form \<open>DEPT NUMBER\<close> do.
\<close>

definition names_department :: "string \<Rightarrow> bool" where
  "names_department c =
     (department_token c \<noteq> [] \<and> list_all (\<lambda>x. \<not> is_space x) (department_token c))"

text \<open>The rows of a department, as the specification words it.\<close>

definition in_department :: "string \<Rightarrow> hist_row \<Rightarrow> bool" where
  "in_department c r = startswith (course_code r) (department_token c)"

text \<open>A blank string has characters, all of them white space.\<close>

definition blank :: "string \<Rightarrow> bool" where
  "blank c = (c \<noteq> [] \<and> list_all is_space c)"

text \<open>
  A required field is unusable when it is missing from the form or, for the four
  converted ones, when its conversion raises.
\<close>

definition conversion_raises :: "(string \<Rightarrow> error + 'a) \<Rightarrow> form \<Rightarrow> string \<Rightarrow> bool" where
  "conversion_raises conv f k = (case f k of None \<Rightarrow> True | Some s \<Rightarrow> isl (conv s))"

definition invalid_required :: "env \<Rightarrow> form \<Rightarrow> bool" where
  "invalid_required ev f =
     (conversion_raises (to_int ev) f ''student_id'' \<or>
      f ''course_code'' = None \<or>
      conversion_raises (to_int ev) f ''has_prerequisites'' \<or>
      conversion_raises (to_float ev) f ''credits'' \<or>
      conversion_raises (to_float ev) f ''attendance'')"

text \<open>The response of the exception handler, lines 179-181.\<close>

definition error_response :: response where
  "error_response =
     \<lparr>prediction = None, probability = None,
      flashed = [''Error during prediction. Please check inputs.'']\<rparr>"

text \<open>The six keys that \<open>index\<close> writes before it merges the history features.\<close>

definition current_keys :: "string list" where
  "current_keys =
     [''has_prerequisites'', ''credits'', ''attendance_rate'',
      ''midterm_score'', ''final_score'', ''assignment_score'']"

text \<open>A table whose only row, of student 9, has a blank course code.\<close>

definition blank_env :: env where
  "blank_env = scenario_env\<lparr>student_data_df := Table [plain_row 9 '' '' True]\<rparr>"

text \<open>
  A request leaves out an optional score whose \<open>past_avg_*\<close> name is not in
  \<open>FEATURES\<close>.
\<close>

definition backfill_key_missing :: "env \<Rightarrow> form \<Rightarrow> bool" where
  "backfill_key_missing ev f =
     (\<not> truthy (f ''midterm'') \<and> ''past_avg_midterm_score'' \<notin> set (FEATURES ev) \<or>
      \<not> truthy (f ''final'') \<and> ''past_avg_final_score'' \<notin> set (FEATURES ev) \<or>
      \<not> truthy (f ''assignment'') \<and> ''past_avg_assignment_score'' \<notin> set (FEATURES ev))"

section \<open>Properties\<close>

subsection \<open>Unfolding sets for closed instances\<close>

lemmas env_defs =
  scenario_env_def short_env_def math_rows_def math_row_def default_features_def
  short_features_def decimal_int_def decimal_float_def plain_row_def mixed_rows_def
  mixed_env_def odd_env_def blank_env_def low_env_def
  gpa_env_def

lemmas history_defs =
  get_history_features_def past_rows_def dept_pass_rate_def truthy_def py_split.simps
  is_space_def startswith_def bind_err_def prereq_feats_def base_feats_def mean_def
  mean_bool_def zero_fill_def is_history_key_def

lemmas index_defs =
  index_def try_body_def feature_frame_def merged_record_def required_fields_def
  form_item_def py_strip_def score_or_history_def classify_def request_of_def

subsection \<open>Auxiliary facts\<close>

text \<open>The means of lines 59-64 are never taken over an empty column.\<close>

lemma past_rows_nonempty: "recs \<noteq> [] \<Longrightarrow> past_rows recs code \<noteq> []"
  by (simp add: past_rows_def Let_def)

lemma try_body_label: "try_body ev f = Inr (label, q) \<Longrightarrow> label = classify q"
  by (auto simp: try_body_def bind_err_def split: sum.splits)

lemma all_history_keys: "list_all is_history_key history_keys"
  by (simp add: history_keys_def is_history_key_def startswith_def)

lemma history_keys_are_history: "k \<in> set history_keys \<Longrightarrow> is_history_key k"
  using all_history_keys by (simp only: list_all_iff)

lemma get_history_features_no_records:
  "student_data_df ev = Table df \<Longrightarrow> filter (\<lambda>r. student_id r = sid) df = [] \<Longrightarrow>
   get_history_features ev sid code = Inr (zero_fill (FEATURES ev))"
  by (simp add: get_history_features_def)

lemma get_history_features_records:
  "student_data_df ev = Table df \<Longrightarrow> filter (\<lambda>r. student_id r = sid) df = recs \<Longrightarrow>
   recs \<noteq> [] \<Longrightarrow>
   get_history_features ev sid code =
     bind_err (dept_pass_rate (past_rows recs code) code)
       (\<lambda>d. Inr (prereq_feats (past_rows recs code)
                    ((base_feats (past_rows recs code))(''dept_pass_rate'' \<mapsto> d))))"
  by (simp add: get_history_features_def Let_def)

lemma map_of_const:
  "map_of (map (\<lambda>k. (k, c)) ks) k = (if k \<in> set ks then Some c else None)"
  by (induction ks) simp_all

lemma zero_fill_apply:
  "zero_fill fs k = (if k \<in> set fs \<and> is_history_key k then Some 0 else None)"
  by (simp add: zero_fill_def map_of_const)

lemma dom_history_feats:
  "dom (prereq_feats past ((base_feats past)(''dept_pass_rate'' \<mapsto> d))) = set history_keys"
  unfolding prereq_feats_def base_feats_def history_keys_def Let_def
  by (simp only: dom_fun_upd dom_empty option.distinct if_False list.set insert_commute)

subsection \<open>The threshold of the label\<close>

text \<open>
  Claim C7. The label is \<open>Yes\<close> (pass) exactly when the probability is at least 0.5,
  and \<open>No\<close> otherwise; the probability 0.5 itself gives \<open>Yes\<close>. This holds for the
  function \<open>classify\<close> and for \<open>index\<close>: when the classifier returns the
  probability \<open>q\<close> for the frame of the request, the response carries exactly \<open>q\<close> as
  its probability and the label of \<open>q\<close> under the threshold 0.5, with no step between
  the classifier and the label; when the classifier raises, so does the body; and a
  label and probability that the body reports are always those of the classifier's
  answer on the frame of the request.
\<close>

theorem classify_threshold:
  "(classify p = ''Yes'' \<longleftrightarrow> p \<ge> 0.5) \<and> (classify p = ''No'' \<longleftrightarrow> \<not> p \<ge> 0.5) \<and>
   classify 0.5 = ''Yes'' \<and>
   (feature_frame ev f = Inr row \<longrightarrow> model ev row = Inr q \<longrightarrow>
      try_body ev f = Inr (if q \<ge> 0.5 then ''Yes'' else ''No'', q) \<and>
      index ev POST f =
        \<lparr>prediction = Some (if q \<ge> 0.5 then ''Yes'' else ''No''),
         probability = Some q, flashed = []\<rparr>) \<and>
   (feature_frame ev f = Inr row \<longrightarrow> model ev row = Inl e \<longrightarrow> try_body ev f = Inl e) \<and>
   (try_body ev f = Inr (label, r) \<longrightarrow>
      (\<exists>row. feature_frame ev f = Inr row \<and> model ev row = Inr r) \<and>
      (label = ''Yes'' \<longleftrightarrow> r \<ge> 0.5) \<and> (label = ''No'' \<longleftrightarrow> \<not> r \<ge> 0.5))"
proof -
  have c: "\<And>x. (classify x = ''Yes'' \<longleftrightarrow> x \<ge> 0.5) \<and> (classify x = ''No'' \<longleftrightarrow> \<not> x \<ge> 0.5)"
    by (simp add: classify_def)
  have 1: "classify 0.5 = ''Yes''"
    by (simp add: classify_def)
  have 2: "feature_frame ev f = Inr row \<longrightarrow> model ev row = Inr q \<longrightarrow>
      try_body ev f = Inr (if q \<ge> 0.5 then ''Yes'' else ''No'', q) \<and>
      index ev POST f =
        \<lparr>prediction = Some (if q \<ge> 0.5 then ''Yes'' else ''No''),
         probability = Some q, flashed = []\<rparr>"
  proof (intro impI)
    assume a: "feature_frame ev f = Inr row" and b: "model ev row = Inr q"
    then have t: "try_body ev f = Inr (if q \<ge> 0.5 then ''Yes'' else ''No'', q)"
      by (simp add: try_body_def bind_err_def classify_def)
    then have "index ev POST f =
        \<lparr>prediction = Some (if q \<ge> 0.5 then ''Yes'' else ''No''),
         probability = Some q, flashed = []\<rparr>"
      by (simp add: index_def)
    with t show "try_body ev f = Inr (if q \<ge> 0.5 then ''Yes'' else ''No'', q) \<and>
      index ev POST f =
        \<lparr>prediction = Some (if q \<ge> 0.5 then ''Yes'' else ''No''),
         probability = Some q, flashed = []\<rparr>"
      by (rule conjI)
  qed
  have 3: "feature_frame ev f = Inr row \<longrightarrow> model ev row = Inl e \<longrightarrow> try_body ev f = Inl e"
    by (simp add: try_body_def bind_err_def)
  have 4: "try_body ev f = Inr (label, r) \<longrightarrow>
      (\<exists>row. feature_frame ev f = Inr row \<and> model ev row = Inr r) \<and>
      (label = ''Yes'' \<longleftrightarrow> r \<ge> 0.5) \<and> (label = ''No'' \<longleftrightarrow> \<not> r \<ge> 0.5)"
  proof
    assume a: "try_body ev f = Inr (label, r)"
    then obtain row' where f: "feature_frame ev f = Inr row'"
      by (cases "feature_frame ev f") (simp_all add: try_body_def bind_err_def)
    with a have m: "model ev row' = Inr r"
      by (cases "model ev row'") (simp_all add: try_body_def bind_err_def)
    from a have "label = classify r" by (rule try_body_label)
    with c [of r] have l: "(label = ''Yes'' \<longleftrightarrow> r \<ge> 0.5) \<and> (label = ''No'' \<longleftrightarrow> \<not> r \<ge> 0.5)"
      by (simp only:)
    from f m have "\<exists>row. feature_frame ev f = Inr row \<and> model ev row = Inr r"
      by (intro exI conjI)
    from this l show "(\<exists>row. feature_frame ev f = Inr row \<and> model ev row = Inr r) \<and>
      (label = ''Yes'' \<longleftrightarrow> r \<ge> 0.5) \<and> (label = ''No'' \<longleftrightarrow> \<not> r \<ge> 0.5)"
      by (rule conjI)
  qed
  have y: "classify p = ''Yes'' \<longleftrightarrow> p \<ge> 0.5"
    using c [of p] by (rule conjunct1)
  have n: "classify p = ''No'' \<longleftrightarrow> \<not> p \<ge> 0.5"
    using c [of p] by (rule conjunct2)
  show ?thesis
    by (intro conjI) (rule y n 1 2 3 4)+
qed

theorem classify_threshold_witness:
  "(\<exists>row. feature_frame scenario_env (request_of ''42'') = Inr row \<and>
      model scenario_env row = Inr (1 / 2)) \<and>
   index scenario_env POST (request_of ''42'') =
     \<lparr>prediction = Some ''Yes'', probability = Some (1 / 2), flashed = []\<rparr> \<and>
   (\<exists>row. feature_frame low_env (request_of ''42'') = Inr row \<and>
      model low_env row = Inr (1 / 5)) \<and>
   index low_env POST (request_of ''42'') =
     \<lparr>prediction = Some ''No'', probability = Some (1 / 5), flashed = []\<rparr>"
proof -
  let ?f = "request_of ''42''"
  have "\<exists>row. feature_frame scenario_env ?f = Inr row"
    by (simp add: env_defs history_defs index_defs)
  then obtain row where a: "feature_frame scenario_env ?f = Inr row" ..
  have b: "model scenario_env row = Inr (1 / 2)"
    by (simp add: scenario_env_def)
  have "\<exists>row. feature_frame low_env ?f = Inr row"
    by (simp add: env_defs history_defs index_defs)
  then obtain low where a': "feature_frame low_env ?f = Inr low" ..
  have b': "model low_env low = Inr (1 / 5)"
    by (simp add: low_env_def)
  note th = classify_threshold [of 0 scenario_env ?f row "1 / 2" KeyError "''Yes''" 0,
      THEN conjunct2, THEN conjunct2, THEN conjunct2, THEN conjunct1, THEN mp, THEN mp, OF a b]
  note th' = classify_threshold [of 0 low_env ?f low "1 / 5" KeyError "''Yes''" 0,
      THEN conjunct2, THEN conjunct2, THEN conjunct2, THEN conjunct1, THEN mp, THEN mp, OF a' b']
  from th have i: "index scenario_env POST ?f =
     \<lparr>prediction = Some ''Yes'', probability = Some (1 / 2), flashed = []\<rparr>"
    by simp
  from th' have i': "index low_env POST ?f =
     \<lparr>prediction = Some ''No'', probability = Some (1 / 5), flashed = []\<rparr>"
    by simp
  from a b have e: "\<exists>row. feature_frame scenario_env ?f = Inr row \<and>
      model scenario_env row = Inr (1 / 2)"
    by (intro exI conjI)
  from a' b' have e': "\<exists>row. feature_frame low_env ?f = Inr row \<and>
      model low_env row = Inr (1 / 5)"
    by (intro exI conjI)
  show ?thesis
    by (intro conjI) (rule e i e' i')+
qed

subsection \<open>A student without records\<close>

text \<open>
  Claim C6, as the code has it. For a student with no row in the loaded table,
  \<open>get_history_features\<close> returns, whatever the course code, the dictionary that maps
  to 0 exactly those entries of \<open>FEATURES\<close> that start with \<open>past_\<close> or are one of
  \<open>courses_taken\<close>, \<open>dept_pass_rate\<close>, \<open>prereq_avg_score\<close>, \<open>prereq_pass_rate\<close>.
  So all ten history-derived keys are returned with the value 0 when \<open>FEATURES\<close> lists
  them, as the default list does, and a key that \<open>FEATURES\<close> does not list is missing
  from the result.
\<close>

theorem no_history_zero_fill:
  assumes "student_data_df ev = Table df"
    and "filter (\<lambda>r. student_id r = sid) df = []"
  shows "\<exists>feats. get_history_features ev sid code = Inr feats \<and>
           (\<forall>k. feats k = (if k \<in> set (FEATURES ev) \<and> is_history_key k then Some 0 else None)) \<and>
           (set history_keys \<subseteq> set (FEATURES ev) \<longrightarrow> (\<forall>k \<in> set history_keys. feats k = Some 0))"
proof -
  have "get_history_features ev sid code = Inr (zero_fill (FEATURES ev))"
    using assms by (rule get_history_features_no_records)
  moreover have "\<forall>k. zero_fill (FEATURES ev) k =
      (if k \<in> set (FEATURES ev) \<and> is_history_key k then Some 0 else None)"
    by (simp only: zero_fill_apply) simp
  moreover have "set history_keys \<subseteq> set (FEATURES ev) \<longrightarrow>
      (\<forall>k \<in> set history_keys. zero_fill (FEATURES ev) k = Some 0)"
  proof (intro impI ballI)
    fix k assume "set history_keys \<subseteq> set (FEATURES ev)" and "k \<in> set history_keys"
    then have "k \<in> set (FEATURES ev)" and "is_history_key k"
      by (blast, simp only: history_keys_are_history)
    then show "zero_fill (FEATURES ev) k = Some 0"
      by (simp only: zero_fill_apply) simp
  qed
  ultimately show ?thesis by blast
qed

theorem no_history_zero_fill_witness:
  "student_data_df scenario_env = Table math_rows \<and>
   filter (\<lambda>r. student_id r = 7) math_rows = [] \<and>
   set history_keys \<subseteq> set (FEATURES scenario_env) \<and>
   (\<exists>feats. get_history_features scenario_env 7 (Some ''MATH 201'') = Inr feats \<and>
      (\<forall>k \<in> set history_keys. feats k = Some 0))"
proof -
  have a: "student_data_df scenario_env = Table math_rows"
    by (simp add: scenario_env_def)
  have b: "filter (\<lambda>r. student_id r = 7) math_rows = []"
    by (simp add: math_rows_def math_row_def)
  have c: "set history_keys \<subseteq> set (FEATURES scenario_env)"
    by (simp add: scenario_env_def history_keys_def default_features_def)
  from no_history_zero_fill [OF a b, of "Some ''MATH 201''"] c
  show ?thesis using a b by blast
qed

text \<open>
  With a feature list that leaves out \<open>past_avg_midterm_score\<close>, student 7, who has no
  record, gets a dictionary without that key.
\<close>

theorem no_history_missing_key:
  "student_data_df short_env = Table math_rows \<and>
   7 \<notin> set (map student_id math_rows) \<and>
   get_history_features short_env 7 (Some ''MATH 201'') = Inr (zero_fill short_features) \<and>
   zero_fill short_features ''past_avg_midterm_score'' = None"
  by (simp add: env_defs history_defs)

subsection \<open>The data set that failed to load\<close>

text \<open>
  Claim C2 does not hold of the code. After a failed load the frame is
  \<open>pd.DataFrame()\<close>, which has no column \<open>student_id\<close>: \<open>get_history_features\<close> raises
  KeyError before it reaches the test \<open>recs.empty\<close>, for every student and course, and
  every POST request ends with the error message and without a prediction.
\<close>

theorem empty_frame_fails:
  "get_history_features (ev\<lparr>student_data_df := load_student_data (Inl e)\<rparr>) sid code = Inl KeyError \<and>
   index (ev\<lparr>student_data_df := load_student_data (Inl e)\<rparr>) POST f =
     \<lparr>prediction = None, probability = None,
      flashed = [''Error during prediction. Please check inputs.'']\<rparr>"
proof -
  let ?ev = "ev\<lparr>student_data_df := load_student_data (Inl e)\<rparr>"
  have g: "\<And>s c. get_history_features ?ev s c = Inl KeyError"
    by (simp add: get_history_features_def load_student_data_def)
  have "\<exists>x. merged_record ?ev f = Inl x"
  proof (cases "required_fields ?ev f")
    case (Inl a)
    then show ?thesis by (simp add: merged_record_def bind_err_def)
  next
    case (Inr b)
    then show ?thesis
      by (cases b) (simp add: merged_record_def bind_err_def g)
  qed
  then obtain x where "merged_record ?ev f = Inl x" ..
  then have "try_body ?ev f = Inl x"
    by (simp add: try_body_def feature_frame_def bind_err_def)
  then have "index ?ev POST f = \<lparr>prediction = None, probability = None,
      flashed = [''Error during prediction. Please check inputs.'']\<rparr>"
    by (simp add: index_def)
  with g show ?thesis by simp
qed

subsection \<open>Splitting a course code\<close>

lemma is_space_space: "is_space (CHR '' '')"
  by (simp add: is_space_def)

lemma py_split_department:
  assumes "names_department c"
  shows "\<exists>ws. py_split c = department_token c # ws"
proof -
  define tok where "tok = takeWhile (\<lambda>x. x \<noteq> CHR '' '') c"
  define rest where "rest = dropWhile (\<lambda>x. x \<noteq> CHR '' '') c"
  have c: "c = tok @ rest"
    by (simp add: tok_def rest_def)
  from assms have ne: "tok \<noteq> []" and ns: "\<forall>x \<in> set tok. \<not> is_space x"
    by (simp_all add: names_department_def department_token_def tok_def list_all_iff)
  then obtain t ts where tok: "tok = t # ts"
    by (cases tok) simp_all
  with ns have t: "\<not> is_space t" and ts: "\<forall>x \<in> set ts. \<not> is_space x"
    by simp_all
  have rest: "takeWhile (\<lambda>x. \<not> is_space x) rest = []"
  proof (cases rest)
    case Nil
    then show ?thesis by simp
  next
    case (Cons r rs)
    then have "dropWhile (\<lambda>x. x \<noteq> CHR '' '') c \<noteq> []"
      by (simp add: rest_def)
    then have "\<not> (hd (dropWhile (\<lambda>x. x \<noteq> CHR '' '') c) \<noteq> CHR '' '')"
      by (rule hd_dropWhile)
    with Cons have "r = CHR '' ''"
      by (simp add: rest_def)
    with Cons show ?thesis
      by (simp add: is_space_space)
  qed
  have d: "dropWhile is_space c = t # (ts @ rest)"
    using t by (simp add: c tok)
  have "takeWhile (\<lambda>x. \<not> is_space x) (ts @ rest) = ts"
    using ts rest by simp
  with d have "py_split c = (t # ts) # py_split (dropWhile (\<lambda>x. \<not> is_space x) (ts @ rest))"
    by (subst py_split.simps) simp
  then show ?thesis
    by (simp add: department_token_def tok_def [symmetric] tok)
qed

lemma py_split_not_blank:
  assumes "c \<noteq> []" and "\<not> blank c"
  shows "\<exists>w ws. py_split c = w # ws"
proof -
  from assms have "\<not> list_all is_space c"
    by (simp add: blank_def)
  then have "dropWhile is_space c \<noteq> []"
    by (simp add: list_all_iff)
  then obtain x xs where "dropWhile is_space c = x # xs"
    by (cases "dropWhile is_space c") simp_all
  then show ?thesis
    by (subst py_split.simps) simp
qed

lemma base_feats_pass_rate:
  "prereq_feats past ((base_feats past)(''dept_pass_rate'' \<mapsto> d)) ''past_pass_rate''
     = Some (mean_bool (map passed past))"
  by (simp add: prereq_feats_def base_feats_def Let_def)

lemma base_feats_dept_rate:
  "prereq_feats past ((base_feats past)(''dept_pass_rate'' \<mapsto> d)) ''dept_pass_rate'' = Some d"
  by (simp add: prereq_feats_def base_feats_def Let_def)

subsection \<open>The pass rate of the department\<close>

text \<open>
  Claim C1. Take a student with at least one record in the loaded table and a course
  code that names a department. Then \<open>get_history_features\<close> returns a dictionary in
  which \<open>past_pass_rate\<close> is the mean of \<open>passed\<close> over the past rows; if no past row
  has a course code that starts with the department token (the part of the requested
  code before its first space), \<open>dept_pass_rate\<close> equals \<open>past_pass_rate\<close>; otherwise
  \<open>dept_pass_rate\<close> is the mean of \<open>passed\<close> over the past rows whose course code
  starts with that token.
\<close>

theorem department_pass_rate:
  assumes "student_data_df ev = Table df"
    and "filter (\<lambda>r. student_id r = sid) df = recs"
    and "recs \<noteq> []"
    and "names_department c"
  shows "\<exists>feats. get_history_features ev sid (Some c) = Inr feats \<and>
           feats ''past_pass_rate'' = Some (mean_bool (map passed (past_rows recs (Some c)))) \<and>
           (filter (in_department c) (past_rows recs (Some c)) = [] \<longrightarrow>
              feats ''dept_pass_rate'' = feats ''past_pass_rate'') \<and>
           (filter (in_department c) (past_rows recs (Some c)) \<noteq> [] \<longrightarrow>
              feats ''dept_pass_rate'' =
                Some (mean_bool (map passed (filter (in_department c) (past_rows recs (Some c))))))"
proof -
  define past where "past = past_rows recs (Some c)"
  define rate where "rate = mean_bool (map passed past)"
  define dept_past where "dept_past = filter (in_department c) past"
  define d where "d = (if dept_past \<noteq> [] then mean_bool (map passed dept_past) else rate)"
  from assms(4) have "department_token c \<noteq> []"
    by (simp add: names_department_def)
  then have "c \<noteq> []"
    by (auto simp: department_token_def)
  moreover from assms(4) obtain ws where "py_split c = department_token c # ws"
    using py_split_department by blast
  ultimately have "dept_pass_rate past (Some c) = Inr d"
    by (simp add: dept_pass_rate_def truthy_def Let_def d_def dept_past_def rate_def
        in_department_def [abs_def])
  then have g: "get_history_features ev sid (Some c) =
      Inr (prereq_feats past ((base_feats past)(''dept_pass_rate'' \<mapsto> d)))"
    using assms(1-3)
    by (simp add: get_history_features_records [where recs = recs] past_def bind_err_def)
  let ?feats = "prereq_feats past ((base_feats past)(''dept_pass_rate'' \<mapsto> d))"
  have p: "?feats ''past_pass_rate'' = Some rate"
    by (simp only: base_feats_pass_rate rate_def)
  have q: "?feats ''dept_pass_rate'' = Some d"
    by (rule base_feats_dept_rate)
  have "dept_past = [] \<longrightarrow> ?feats ''dept_pass_rate'' = ?feats ''past_pass_rate''"
    unfolding p q by (simp add: d_def)
  moreover have "dept_past \<noteq> [] \<longrightarrow>
      ?feats ''dept_pass_rate'' = Some (mean_bool (map passed dept_past))"
    unfolding q by (simp add: d_def)
  ultimately show ?thesis
    using g p unfolding past_def [symmetric] dept_past_def rate_def by blast
qed

theorem department_pass_rate_witness:
  "student_data_df mixed_env = Table mixed_rows \<and>
   filter (\<lambda>r. student_id r = 5) mixed_rows \<noteq> [] \<and>
   names_department ''CS 303'' \<and>
   filter (in_department ''CS 303'')
     (past_rows (filter (\<lambda>r. student_id r = 5) mixed_rows) (Some ''CS 303'')) \<noteq> [] \<and>
   (\<exists>feats. get_history_features mixed_env 5 (Some ''CS 303'') = Inr feats \<and>
      feats ''past_pass_rate'' = Some (2 / 3) \<and> feats ''dept_pass_rate'' = Some (1 / 2))"
proof -
  have a: "student_data_df mixed_env = Table mixed_rows"
    by (simp add: env_defs)
  have b: "filter (\<lambda>r. student_id r = 5) mixed_rows \<noteq> []"
    by (simp add: env_defs)
  have c: "names_department ''CS 303''"
    by (simp add: names_department_def department_token_def is_space_def)
  have d: "filter (in_department ''CS 303'')
     (past_rows (filter (\<lambda>r. student_id r = 5) mixed_rows) (Some ''CS 303'')) \<noteq> []"
    by (simp add: env_defs past_rows_def in_department_def department_token_def startswith_def)
  have e: "mean_bool (map passed (past_rows (filter (\<lambda>r. student_id r = 5) mixed_rows) (Some ''CS 303''))) = 2 / 3"
    by (simp add: env_defs past_rows_def mean_bool_def mean_def)
  have f: "mean_bool (map passed (filter (in_department ''CS 303'')
     (past_rows (filter (\<lambda>r. student_id r = 5) mixed_rows) (Some ''CS 303'')))) = 1 / 2"
    by (simp add: env_defs past_rows_def in_department_def department_token_def startswith_def
        mean_bool_def mean_def)
  from department_pass_rate [OF a refl b c] d
  show ?thesis using a b c unfolding e f by blast
qed

subsection \<open>A student with records in one course only\<close>

text \<open>
  Claim C4, as the code has it. When every record of the student in the loaded table is
  in the course \<open>c\<close>, and \<open>c\<close> is not a blank string, \<open>get_history_features\<close> returns
  for the course \<open>c\<close> exactly the dictionary it returns without a course: leaving out
  the rows of \<open>c\<close> would leave nothing, so all rows are used, and every row is in the
  department of \<open>c\<close> or none is.
\<close>

theorem single_course_self_exclusion:
  assumes "student_data_df ev = Table df"
    and "\<forall>r \<in> set df. student_id r = sid \<longrightarrow> course_code r = c"
    and "\<not> blank c"
  shows "\<exists>feats. get_history_features ev sid (Some c) = Inr feats \<and>
           get_history_features ev sid None = Inr feats"
proof (cases "filter (\<lambda>r. student_id r = sid) df = []")
  case True
  with assms(1) show ?thesis
    by (simp add: get_history_features_no_records)
next
  case False
  define recs where "recs = filter (\<lambda>r. student_id r = sid) df"
  from False have ne: "recs \<noteq> []"
    by (simp add: recs_def)
  from assms(2) have all: "\<forall>r \<in> set recs. course_code r = c"
    by (simp add: recs_def)
  then have "filter (\<lambda>r. course_code r \<noteq> c) recs = []"
    by simp
  then have past: "past_rows recs (Some c) = recs" "past_rows recs None = recs"
    by (simp_all add: past_rows_def)
  define rate where "rate = mean_bool (map passed recs)"
  have n: "dept_pass_rate recs None = Inr rate"
    by (simp add: dept_pass_rate_def truthy_def rate_def)
  have s: "dept_pass_rate recs (Some c) = Inr rate"
  proof (cases "c = []")
    case True
    then show ?thesis
      by (simp add: dept_pass_rate_def truthy_def rate_def)
  next
    case False
    with assms(3) obtain w ws where w: "py_split c = w # ws"
      using py_split_not_blank by blast
    have "filter (\<lambda>r. startswith (course_code r) w) recs = (if startswith c w then recs else [])"
      using all by (simp cong: filter_cong)
    with False w show ?thesis
      by (simp add: dept_pass_rate_def truthy_def rate_def Let_def)
  qed
  have "get_history_features ev sid (Some c) =
      Inr (prereq_feats recs ((base_feats recs)(''dept_pass_rate'' \<mapsto> rate)))"
    using assms(1) ne
    by (simp add: get_history_features_records [where recs = recs] recs_def [symmetric] past s bind_err_def)
  moreover have "get_history_features ev sid None =
      Inr (prereq_feats recs ((base_feats recs)(''dept_pass_rate'' \<mapsto> rate)))"
    using assms(1) ne
    by (simp add: get_history_features_records [where recs = recs] recs_def [symmetric] past n bind_err_def)
  ultimately show ?thesis by simp
qed

theorem single_course_self_exclusion_witness:
  "student_data_df scenario_env = Table math_rows \<and>
   map course_code (filter (\<lambda>r. student_id r = 42) math_rows) = [''MATH 201'', ''MATH 201''] \<and>
   \<not> blank ''MATH 201'' \<and>
   get_history_features scenario_env 42 (Some ''MATH 201'') = get_history_features scenario_env 42 None \<and>
   (\<exists>feats. get_history_features scenario_env 42 None = Inr feats \<and> feats ''courses_taken'' = Some 2)"
proof -
  have a: "student_data_df scenario_env = Table math_rows"
    by (simp add: env_defs)
  have b: "\<forall>r \<in> set math_rows. student_id r = 42 \<longrightarrow> course_code r = ''MATH 201''"
    by (simp add: env_defs)
  have c: "\<not> blank ''MATH 201''"
    by (simp add: blank_def is_space_def)
  have d: "\<exists>feats. get_history_features scenario_env 42 None = Inr feats \<and> feats ''courses_taken'' = Some 2"
    by (simp add: env_defs history_defs)
  have e: "map course_code (filter (\<lambda>r. student_id r = 42) math_rows) = [''MATH 201'', ''MATH 201'']"
    by (simp add: env_defs)
  from single_course_self_exclusion [OF a b c] obtain feats where
    s: "get_history_features scenario_env 42 (Some ''MATH 201'') = Inr feats" and
    n: "get_history_features scenario_env 42 None = Inr feats"
    by (elim conjE exE)
  from s n have q: "get_history_features scenario_env 42 (Some ''MATH 201'')
      = get_history_features scenario_env 42 None"
    by (simp only:)
  show ?thesis
    by (intro conjI) (rule a e c q d)+
qed

text \<open>
  For a blank course code the two calls differ: \<open>split()\<close> gives no word, so the call
  with the course raises IndexError, while the call without a course returns.
\<close>

theorem blank_course_raises:
  "student_data_df blank_env = Table [plain_row 9 '' '' True] \<and>
   map student_id [plain_row 9 '' '' True] = [9] \<and>
   map course_code [plain_row 9 '' '' True] = ['' ''] \<and>
   get_history_features blank_env 9 (Some '' '') = Inl IndexError \<and>
   isl (get_history_features blank_env 9 None) = False"
  by (simp add: blank_env_def env_defs history_defs)

subsection \<open>The structure of the merged record\<close>

lemma all_current_keys: "list_all (\<lambda>k. \<not> is_history_key k \<and> k \<notin> set history_keys) current_keys"
  by (simp add: current_keys_def history_keys_def is_history_key_def startswith_def)

lemma history_no_current_key:
  assumes "get_history_features ev sid code = Inr hist" and "k \<in> set current_keys"
  shows "hist k = None"
proof -
  from assms(2) all_current_keys have k: "\<not> is_history_key k" "k \<notin> set history_keys"
    by (simp_all add: list_all_iff)
  show ?thesis
  proof (cases "student_data_df ev")
    case EmptyDataFrame
    with assms(1) show ?thesis
      by (simp add: get_history_features_def)
  next
    case (Table df)
    show ?thesis
    proof (cases "filter (\<lambda>r. student_id r = sid) df = []")
      case True
      with Table assms(1) have "hist = zero_fill (FEATURES ev)"
        by (simp add: get_history_features_no_records)
      with k(1) show ?thesis
        by (simp add: zero_fill_apply)
    next
      case False
      with Table assms(1) obtain past d where
        "hist = prereq_feats past ((base_feats past)(''dept_pass_rate'' \<mapsto> d))"
        by (auto simp: get_history_features_records bind_err_def split: sum.splits)
      then have "dom hist = set history_keys"
        by (simp only: dom_history_feats)
      with k(2) show ?thesis
        by blast
    qed
  qed
qed

lemma merged_record_cases:
  assumes "merged_record ev f = Inr data"
  obtains sid code pre cr att hist mid fin asm where
    "required_fields ev f = Inr (sid, code, pre, cr, att)"
    "get_history_features ev sid (Some code) = Inr hist"
    "score_or_history ev (f ''midterm'') hist ''past_avg_midterm_score'' = Inr mid"
    "score_or_history ev (f ''final'') hist ''past_avg_final_score'' = Inr fin"
    "score_or_history ev (f ''assignment'') hist ''past_avg_assignment_score'' = Inr asm"
    "data = [''has_prerequisites'' \<mapsto> of_int pre, ''credits'' \<mapsto> cr,
             ''attendance_rate'' \<mapsto> att, ''midterm_score'' \<mapsto> mid,
             ''final_score'' \<mapsto> fin, ''assignment_score'' \<mapsto> asm] ++ hist"
  using assms
  by (auto simp: merged_record_def bind_err_def split: sum.splits prod.splits)

lemma score_or_history_value:
  assumes "score_or_history ev x hist k = Inr v"
  shows "(\<not> truthy x \<longrightarrow> hist k = Some v) \<and> (truthy x \<longrightarrow> to_float ev (the x) = Inr v)"
  using assms by (simp add: score_or_history_def split: if_splits option.splits)

lemma merged_lookup_current:
  assumes "get_history_features ev sid code = Inr hist" and "k \<in> set current_keys"
  shows "(m ++ hist) k = m k"
  using history_no_current_key [OF assms] by (simp add: map_add_def)

lemma merged_lookup_history:
  assumes "hist k = Some v"
  shows "(m ++ hist) k = Some v"
  using assms by (simp add: map_add_def)

subsection \<open>Backfill of the optional scores\<close>

text \<open>
  Claim C5. In every merged record that \<open>index\<close> builds, each of \<open>midterm_score\<close>,
  \<open>final_score\<close> and \<open>assignment_score\<close> is, when the form does not supply the score
  (the field is missing or empty), exactly the value that \<open>get_history_features\<close>
  returned for this student under \<open>past_avg_midterm_score\<close>, \<open>past_avg_final_score\<close>
  and \<open>past_avg_assignment_score\<close>; and when the form supplies it, the number that
  \<open>float\<close> reads from the field.
\<close>

theorem backfill_from_history:
  assumes "merged_record ev f = Inr data"
  shows "\<exists>sid code pre cr att hist.
           required_fields ev f = Inr (sid, code, pre, cr, att) \<and>
           get_history_features ev sid (Some code) = Inr hist \<and>
           (\<not> truthy (f ''midterm'') \<longrightarrow>
              data ''midterm_score'' = hist ''past_avg_midterm_score'' \<and>
              hist ''past_avg_midterm_score'' \<noteq> None) \<and>
           (truthy (f ''midterm'') \<longrightarrow>
              (\<exists>v. data ''midterm_score'' = Some v \<and> to_float ev (the (f ''midterm'')) = Inr v)) \<and>
           (\<not> truthy (f ''final'') \<longrightarrow>
              data ''final_score'' = hist ''past_avg_final_score'' \<and>
              hist ''past_avg_final_score'' \<noteq> None) \<and>
           (truthy (f ''final'') \<longrightarrow>
              (\<exists>v. data ''final_score'' = Some v \<and> to_float ev (the (f ''final'')) = Inr v)) \<and>
           (\<not> truthy (f ''assignment'') \<longrightarrow>
              data ''assignment_score'' = hist ''past_avg_assignment_score'' \<and>
              hist ''past_avg_assignment_score'' \<noteq> None) \<and>
           (truthy (f ''assignment'') \<longrightarrow>
              (\<exists>v. data ''assignment_score'' = Some v \<and>
                   to_float ev (the (f ''assignment'')) = Inr v))"
proof -
  from assms obtain sid code pre cr att hist mid fin asm where
    r: "required_fields ev f = Inr (sid, code, pre, cr, att)" and
    h: "get_history_features ev sid (Some code) = Inr hist" and
    m: "score_or_history ev (f ''midterm'') hist ''past_avg_midterm_score'' = Inr mid" and
    n: "score_or_history ev (f ''final'') hist ''past_avg_final_score'' = Inr fin" and
    a: "score_or_history ev (f ''assignment'') hist ''past_avg_assignment_score'' = Inr asm" and
    d: "data = [''has_prerequisites'' \<mapsto> of_int pre, ''credits'' \<mapsto> cr,
             ''attendance_rate'' \<mapsto> att, ''midterm_score'' \<mapsto> mid,
             ''final_score'' \<mapsto> fin, ''assignment_score'' \<mapsto> asm] ++ hist"
    by (rule merged_record_cases)
  have dm: "data ''midterm_score'' = Some mid"
    unfolding d by (subst merged_lookup_current [OF h]) (simp_all add: current_keys_def)
  have dn: "data ''final_score'' = Some fin"
    unfolding d by (subst merged_lookup_current [OF h]) (simp_all add: current_keys_def)
  have da: "data ''assignment_score'' = Some asm"
    unfolding d by (subst merged_lookup_current [OF h]) (simp_all add: current_keys_def)
  have "(\<not> truthy (f ''midterm'') \<longrightarrow>
              data ''midterm_score'' = hist ''past_avg_midterm_score'' \<and>
              hist ''past_avg_midterm_score'' \<noteq> None) \<and>
           (truthy (f ''midterm'') \<longrightarrow>
              (\<exists>v. data ''midterm_score'' = Some v \<and> to_float ev (the (f ''midterm'')) = Inr v))"
    using score_or_history_value [OF m] unfolding dm by simp
  moreover have "(\<not> truthy (f ''final'') \<longrightarrow>
              data ''final_score'' = hist ''past_avg_final_score'' \<and>
              hist ''past_avg_final_score'' \<noteq> None) \<and>
           (truthy (f ''final'') \<longrightarrow>
              (\<exists>v. data ''final_score'' = Some v \<and> to_float ev (the (f ''final'')) = Inr v))"
    using score_or_history_value [OF n] unfolding dn by simp
  moreover have "(\<not> truthy (f ''assignment'') \<longrightarrow>
              data ''assignment_score'' = hist ''past_avg_assignment_score'' \<and>
              hist ''past_avg_assignment_score'' \<noteq> None) \<and>
           (truthy (f ''assignment'') \<longrightarrow>
              (\<exists>v. data ''assignment_score'' = Some v \<and>
                   to_float ev (the (f ''assignment'')) = Inr v))"
    using score_or_history_value [OF a] unfolding da by simp
  ultimately show ?thesis
    using r h by blast
qed

lemma scenario_history:
  "\<exists>hist. get_history_features scenario_env 42 (Some ''MATH 201'') = Inr hist \<and>
     hist ''past_avg_midterm_score'' = Some 50"
  by (simp add: env_defs history_defs)

lemma scenario_required:
  "required_fields scenario_env ((request_of ''42'')(''final'' \<mapsto> ''88''))
     = Inr (42, ''MATH 201'', 1, 3, 80)"
  by (simp add: env_defs index_defs bind_err_def is_space_def)

theorem backfill_from_history_witness:
  "\<exists>data hist.
     merged_record scenario_env ((request_of ''42'')(''final'' \<mapsto> ''88'')) = Inr data \<and>
     get_history_features scenario_env 42 (Some ''MATH 201'') = Inr hist \<and>
     \<not> truthy (((request_of ''42'')(''final'' \<mapsto> ''88'')) ''midterm'') \<and>
     truthy (((request_of ''42'')(''final'' \<mapsto> ''88'')) ''final'') \<and>
     data ''midterm_score'' = hist ''past_avg_midterm_score'' \<and>
     data ''midterm_score'' = Some 50 \<and>
     to_float scenario_env ''88'' = Inr 88 \<and>
     data ''final_score'' = Some 88"
proof -
  let ?f = "(request_of ''42'')(''final'' \<mapsto> ''88'')"
  have "\<exists>data. merged_record scenario_env ?f = Inr data"
    by (simp add: env_defs history_defs index_defs)
  then obtain data where d: "merged_record scenario_env ?f = Inr data" ..
  from scenario_history obtain hist0 where
    h0: "get_history_features scenario_env 42 (Some ''MATH 201'') = Inr hist0"
      "hist0 ''past_avg_midterm_score'' = Some 50"
    by blast
  have t: "\<not> truthy (?f ''midterm'')" "truthy (?f ''final'')" "the (?f ''final'') = ''88''"
    by (simp_all add: request_of_def truthy_def)
  have c: "to_float scenario_env ''88'' = Inr 88"
    by (simp add: env_defs)
  from backfill_from_history [OF d] obtain sid code pre cr att hist where
    r: "required_fields scenario_env ?f = Inr (sid, code, pre, cr, att)" and
    h: "get_history_features scenario_env sid (Some code) = Inr hist" and
    m: "\<not> truthy (?f ''midterm'') \<longrightarrow>
              data ''midterm_score'' = hist ''past_avg_midterm_score''" and
    n: "truthy (?f ''final'') \<longrightarrow>
              (\<exists>v. data ''final_score'' = Some v \<and> to_float scenario_env (the (?f ''final'')) = Inr v)"
    by blast
  from r have "sid = 42" "code = ''MATH 201''"
    by (simp_all add: scenario_required)
  with h h0 have hh: "hist = hist0"
    by simp
  from m t have "data ''midterm_score'' = hist0 ''past_avg_midterm_score''"
    by (simp add: hh)
  moreover from n t c have "data ''final_score'' = Some 88"
    by auto
  ultimately show ?thesis
    using d h0 t c by auto
qed

lemma math201_history:
  assumes "student_data_df ev = Table df"
    and "filter (\<lambda>r. student_id r = 42) df =
           [math_row h1 70 65 75 70 90 True, math_row h2 40 35 45 40 60 False]"
  shows "\<exists>hist. get_history_features ev 42 (Some ''MATH 201'') = Inr hist \<and>
           hist ''past_avg_midterm_score'' = Some 50 \<and>
           hist ''past_avg_final_score'' = Some 60 \<and>
           hist ''past_avg_assignment_score'' = Some 55 \<and>
           hist ''past_avg_attendance'' = Some 75 \<and>
           hist ''past_pass_rate'' = Some (1 / 2) \<and>
           hist ''courses_taken'' = Some 2"
proof -
  let ?recs = "[math_row h1 70 65 75 70 90 True, math_row h2 40 35 45 40 60 False]"
  have p: "past_rows ?recs (Some ''MATH 201'') = ?recs"
    by (simp add: past_rows_def math_row_def)
  have "\<exists>d. dept_pass_rate ?recs (Some ''MATH 201'') = Inr d"
    by (simp add: dept_pass_rate_def truthy_def py_split.simps is_space_def Let_def)
  then obtain d where d: "dept_pass_rate ?recs (Some ''MATH 201'') = Inr d" ..
  have g: "get_history_features ev 42 (Some ''MATH 201'') =
      Inr (prereq_feats ?recs ((base_feats ?recs)(''dept_pass_rate'' \<mapsto> d)))"
    using assms by (simp add: get_history_features_records [where recs = ?recs] p d bind_err_def)
  show ?thesis
    unfolding g
    by (simp add: prereq_feats_def base_feats_def Let_def mean_def mean_bool_def math_row_def)
qed

subsection \<open>The scenario of student 42\<close>

text \<open>
  Claim C8. Student 42 has exactly two records, both in MATH 201: total 70, midterm 65,
  final 75, assignment 70, attendance 90, passed; and total 40, midterm 35, final 45,
  assignment 40, attendance 60, failed. A request of student 42 for MATH 201 without
  midterm, final and assignment scores gets the merged record with midterm 50, final
  60, assignment 55, and the history features \<open>past_avg_attendance\<close> = 75,
  \<open>past_pass_rate\<close> = 0.5 and \<open>courses_taken\<close> = 2. This holds whatever the
  prerequisite flags of the two records, the rows of other students, the feature list
  and the values of the three required numeric fields.
\<close>

theorem math201_scenario:
  assumes "student_data_df ev = Table df"
    and "filter (\<lambda>r. student_id r = 42) df =
           [math_row h1 70 65 75 70 90 True, math_row h2 40 35 45 40 60 False]"
    and "required_fields ev f = Inr (42, ''MATH 201'', pre, cr, att)"
    and "\<not> truthy (f ''midterm'')" and "\<not> truthy (f ''final'')"
    and "\<not> truthy (f ''assignment'')"
  shows "\<exists>hist data.
           get_history_features ev 42 (Some ''MATH 201'') = Inr hist \<and>
           merged_record ev f = Inr data \<and>
           data ''midterm_score'' = Some 50 \<and>
           data ''final_score'' = Some 60 \<and>
           data ''assignment_score'' = Some 55 \<and>
           hist ''past_avg_attendance'' = Some 75 \<and>
           hist ''past_pass_rate'' = Some (1 / 2) \<and>
           hist ''courses_taken'' = Some 2 \<and>
           data ''past_avg_attendance'' = Some 75 \<and>
           data ''past_pass_rate'' = Some (1 / 2) \<and>
           data ''courses_taken'' = Some 2"
proof -
  from math201_history [OF assms(1,2)] obtain hist where
    g: "get_history_features ev 42 (Some ''MATH 201'') = Inr hist" and
    h: "hist ''past_avg_midterm_score'' = Some 50"
       "hist ''past_avg_final_score'' = Some 60"
       "hist ''past_avg_assignment_score'' = Some 55"
       "hist ''past_avg_attendance'' = Some 75"
       "hist ''past_pass_rate'' = Some (1 / 2)"
       "hist ''courses_taken'' = Some 2"
    by blast
  define base :: feats where
    "base = [''has_prerequisites'' \<mapsto> of_int pre, ''credits'' \<mapsto> cr,
             ''attendance_rate'' \<mapsto> att, ''midterm_score'' \<mapsto> 50,
             ''final_score'' \<mapsto> 60, ''assignment_score'' \<mapsto> 55]"
  have m: "merged_record ev f = Inr (base ++ hist)"
    using assms(3-6) g h(1-3)
    by (simp add: merged_record_def bind_err_def score_or_history_def base_def)
  have k: "(base ++ hist) ''midterm_score'' = Some 50"
    "(base ++ hist) ''final_score'' = Some 60"
    "(base ++ hist) ''assignment_score'' = Some 55"
    by (subst merged_lookup_current [OF g]; simp add: current_keys_def base_def)+
  have l: "(base ++ hist) ''past_avg_attendance'' = Some 75"
    "(base ++ hist) ''past_pass_rate'' = Some (1 / 2)"
    "(base ++ hist) ''courses_taken'' = Some 2"
    using h(4-6) by (simp_all only: merged_lookup_history)
  show ?thesis
    by (rule exI [of _ hist], rule exI [of _ "base ++ hist"])
      (simp only: g m k l h(4-6) simp_thms)
qed

theorem math201_scenario_witness:
  "student_data_df scenario_env = Table math_rows \<and>
   filter (\<lambda>r. student_id r = 42) math_rows =
     [math_row True 70 65 75 70 90 True, math_row False 40 35 45 40 60 False] \<and>
   required_fields scenario_env (request_of ''42'') = Inr (42, ''MATH 201'', 1, 3, 80) \<and>
   \<not> truthy (request_of ''42'' ''midterm'') \<and>
   \<not> truthy (request_of ''42'' ''final'') \<and>
   \<not> truthy (request_of ''42'' ''assignment'') \<and>
   (\<exists>data. merged_record scenario_env (request_of ''42'') = Inr data \<and>
      data ''midterm_score'' = Some 50 \<and> data ''final_score'' = Some 60 \<and>
      data ''assignment_score'' = Some 55 \<and> data ''past_avg_attendance'' = Some 75 \<and>
      data ''past_pass_rate'' = Some (1 / 2) \<and> data ''courses_taken'' = Some 2)"
proof -
  have a: "student_data_df scenario_env = Table math_rows"
    by (simp add: env_defs)
  have b: "filter (\<lambda>r. student_id r = 42) math_rows =
     [math_row True 70 65 75 70 90 True, math_row False 40 35 45 40 60 False]"
    by (simp add: math_rows_def math_row_def)
  have c: "required_fields scenario_env (request_of ''42'') = Inr (42, ''MATH 201'', 1, 3, 80)"
    by (simp add: env_defs index_defs bind_err_def is_space_def)
  have d: "\<not> truthy (request_of ''42'' ''midterm'')"
    "\<not> truthy (request_of ''42'' ''final'')"
    "\<not> truthy (request_of ''42'' ''assignment'')"
    by (simp_all add: request_of_def truthy_def)
  from math201_scenario [OF a b c d]
  show ?thesis using a b c d by blast
qed

subsection \<open>Selection of the columns\<close>

lemma select_columns_present:
  "\<forall>k \<in> set ks. data k \<noteq> None \<Longrightarrow>
   select_columns data ks = Inr (map (\<lambda>k. (k, the (data k))) ks)"
  by (induction ks) (auto simp: bind_err_def)

lemma select_columns_missing:
  "\<exists>k \<in> set ks. data k = None \<Longrightarrow> select_columns data ks = Inl KeyError"
proof (induction ks)
  case Nil
  then show ?case by simp
next
  case (Cons k ks)
  show ?case
  proof (cases "data k")
    case None
    then show ?thesis by simp
  next
    case (Some v)
    with Cons.prems have "\<exists>k \<in> set ks. data k = None"
      by auto
    then have "select_columns data ks = Inl KeyError"
      by (rule Cons.IH)
    with Some show ?thesis
      by (simp add: bind_err_def)
  qed
qed

lemma select_columns_result:
  assumes "select_columns data ks = Inr row"
  shows "row = map (\<lambda>k. (k, the (data k))) ks \<and> (\<forall>k \<in> set ks. data k \<noteq> None)"
proof (cases "\<exists>k \<in> set ks. data k = None")
  case True
  then have "select_columns data ks = Inl KeyError"
    by (rule select_columns_missing)
  with assms show ?thesis by simp
next
  case False
  then have a: "\<forall>k \<in> set ks. data k \<noteq> None"
    by simp
  then have "select_columns data ks = Inr (map (\<lambda>k. (k, the (data k))) ks)"
    by (rule select_columns_present)
  with assms a show ?thesis by simp
qed

lemma index_error: "try_body ev f = Inl e \<Longrightarrow> index ev POST f = error_response"
  by (simp add: index_def error_response_def)

subsection \<open>The frame handed to the classifier\<close>

text \<open>
  Claim C9. Whenever a frame is handed to the classifier, its columns are exactly the
  names of \<open>FEATURES\<close>, in the order of \<open>FEATURES\<close>, each with the value the merged
  record has for it; keys of the merged record that are not in \<open>FEATURES\<close> are left out.
  When every name of \<open>FEATURES\<close> is a key of the merged record, this frame is built and
  the classifier is called on it. When some name of \<open>FEATURES\<close> is not a key of the
  merged record, the selection raises KeyError: the classifier is not called and the
  request ends with the error message.
\<close>

theorem feature_frame_schema:
  "(feature_frame ev f = Inr row \<longrightarrow>
      map fst row = FEATURES ev \<and>
      (\<exists>data. merged_record ev f = Inr data \<and>
         row = map (\<lambda>k. (k, the (data k))) (FEATURES ev) \<and>
         (\<forall>k \<in> set (FEATURES ev). data k \<noteq> None))) \<and>
   (merged_record ev f = Inr data \<longrightarrow> (\<forall>k \<in> set (FEATURES ev). data k \<noteq> None) \<longrightarrow>
      feature_frame ev f = Inr (map (\<lambda>k. (k, the (data k))) (FEATURES ev)) \<and>
      try_body ev f =
        bind_err (model ev (map (\<lambda>k. (k, the (data k))) (FEATURES ev)))
          (\<lambda>proba. Inr (classify proba, proba))) \<and>
   (merged_record ev f = Inr data \<longrightarrow> (\<exists>k \<in> set (FEATURES ev). data k = None) \<longrightarrow>
      feature_frame ev f = Inl KeyError \<and> try_body ev f = Inl KeyError \<and>
      index ev POST f = error_response)"
proof (intro conjI impI)
  assume a: "feature_frame ev f = Inr row"
  then obtain d where d: "merged_record ev f = Inr d" and s: "select_columns d (FEATURES ev) = Inr row"
    by (cases "merged_record ev f") (simp_all add: feature_frame_def bind_err_def)
  from select_columns_result [OF s]
  have r: "row = map (\<lambda>k. (k, the (d k))) (FEATURES ev)" and p: "\<forall>k \<in> set (FEATURES ev). d k \<noteq> None"
    by simp_all
  from r show "map fst row = FEATURES ev"
    by (simp add: comp_def)
  from d r p show "\<exists>data. merged_record ev f = Inr data \<and>
         row = map (\<lambda>k. (k, the (data k))) (FEATURES ev) \<and>
         (\<forall>k \<in> set (FEATURES ev). data k \<noteq> None)"
    by blast
next
  assume m: "merged_record ev f = Inr data" and p: "\<forall>k \<in> set (FEATURES ev). data k \<noteq> None"
  from p have "select_columns data (FEATURES ev) = Inr (map (\<lambda>k. (k, the (data k))) (FEATURES ev))"
    by (rule select_columns_present)
  with m show ff: "feature_frame ev f = Inr (map (\<lambda>k. (k, the (data k))) (FEATURES ev))"
    by (simp add: feature_frame_def bind_err_def)
  then show "try_body ev f =
        bind_err (model ev (map (\<lambda>k. (k, the (data k))) (FEATURES ev)))
          (\<lambda>proba. Inr (classify proba, proba))"
    by (simp add: try_body_def bind_err_def)
next
  assume m: "merged_record ev f = Inr data" and p: "\<exists>k \<in> set (FEATURES ev). data k = None"
  from p have "select_columns data (FEATURES ev) = Inl KeyError"
    by (rule select_columns_missing)
  with m show ff: "feature_frame ev f = Inl KeyError"
    by (simp add: feature_frame_def bind_err_def)
  then show tb: "try_body ev f = Inl KeyError"
    by (simp add: try_body_def bind_err_def)
  then show "index ev POST f = error_response"
    by (rule index_error)
qed

theorem feature_frame_schema_witness:
  "(\<exists>row data. feature_frame scenario_env (request_of ''42'') = Inr row \<and>
      merged_record scenario_env (request_of ''42'') = Inr data \<and>
      (\<forall>k \<in> set (FEATURES scenario_env). data k \<noteq> None) \<and>
      map fst row = default_features) \<and>
   (\<exists>data. merged_record odd_env (request_of ''42'') = Inr data \<and>
      ''gpa'' \<in> set (FEATURES odd_env) \<and> data ''gpa'' = None \<and>
      try_body odd_env (request_of ''42'') = Inl KeyError \<and>
      index odd_env POST (request_of ''42'') = error_response)"
proof -
  let ?f = "request_of ''42''"
  have "\<exists>row. feature_frame scenario_env ?f = Inr row"
    by (simp add: env_defs history_defs index_defs)
  then obtain row where r: "feature_frame scenario_env ?f = Inr row" ..
  have F: "FEATURES scenario_env = default_features"
    by (simp add: scenario_env_def)
  have "feature_frame scenario_env ?f = Inr row \<longrightarrow>
      map fst row = FEATURES scenario_env \<and>
      (\<exists>data. merged_record scenario_env ?f = Inr data \<and>
         row = map (\<lambda>k. (k, the (data k))) (FEATURES scenario_env) \<and>
         (\<forall>k \<in> set (FEATURES scenario_env). data k \<noteq> None))"
    using feature_frame_schema [of scenario_env ?f row] by (rule conjunct1)
  from this [rule_format, OF r] obtain data where
    k: "map fst row = FEATURES scenario_env" and
    m: "merged_record scenario_env ?f = Inr data" and
    p: "\<forall>k \<in> set (FEATURES scenario_env). data k \<noteq> None"
    by (elim conjE exE)
  have k': "map fst row = default_features"
    by (simp only: k F)
  have 1: "\<exists>row data. feature_frame scenario_env ?f = Inr row \<and>
      merged_record scenario_env ?f = Inr data \<and>
      (\<forall>k \<in> set (FEATURES scenario_env). data k \<noteq> None) \<and>
      map fst row = default_features"
    by (rule exI [of _ row], rule exI [of _ data], intro conjI) (rule r m p k')+
  have "\<exists>data. merged_record odd_env ?f = Inr data \<and> data ''gpa'' = None"
    by (simp add: env_defs history_defs index_defs)
  then obtain odd where d: "merged_record odd_env ?f = Inr odd" and g: "odd ''gpa'' = None"
    by (elim conjE exE)
  have n: "''gpa'' \<in> set (FEATURES odd_env)"
    by (simp add: env_defs)
  from n g have e: "\<exists>k \<in> set (FEATURES odd_env). odd k = None"
    by (rule bexI [rotated])
  have "merged_record odd_env ?f = Inr odd \<longrightarrow> (\<exists>k \<in> set (FEATURES odd_env). odd k = None) \<longrightarrow>
      feature_frame odd_env ?f = Inl KeyError \<and> try_body odd_env ?f = Inl KeyError \<and>
      index odd_env POST ?f = error_response"
    using feature_frame_schema [of odd_env ?f row odd] by (rule conjunct2 [THEN conjunct2])
  from this [THEN mp, THEN mp, OF d e]
  have t: "try_body odd_env ?f = Inl KeyError" and i: "index odd_env POST ?f = error_response"
    by simp_all
  have 2: "\<exists>data. merged_record odd_env ?f = Inr data \<and>
      ''gpa'' \<in> set (FEATURES odd_env) \<and> data ''gpa'' = None \<and>
      try_body odd_env ?f = Inl KeyError \<and>
      index odd_env POST ?f = error_response"
    by (rule exI [of _ odd], intro conjI) (rule d n g t i)+
  from 1 2 show ?thesis by (rule conjI)
qed

subsection \<open>A backfill key that is missing\<close>

lemma score_or_history_missing:
  "\<not> truthy x \<Longrightarrow> hist k = None \<Longrightarrow> score_or_history ev x hist k = Inl KeyError"
  by (simp add: score_or_history_def)

lemma merged_record_scores:
  assumes "required_fields ev f = Inr (sid, code, pre, cr, att)"
    and "get_history_features ev sid (Some code) = Inr hist"
  shows "merged_record ev f =
     bind_err (score_or_history ev (f ''midterm'') hist ''past_avg_midterm_score'') (\<lambda>mid.
     bind_err (score_or_history ev (f ''final'') hist ''past_avg_final_score'') (\<lambda>fin.
     bind_err (score_or_history ev (f ''assignment'') hist ''past_avg_assignment_score'') (\<lambda>asm.
     Inr ([''has_prerequisites'' \<mapsto> of_int pre,
           ''credits'' \<mapsto> cr,
           ''attendance_rate'' \<mapsto> att,
           ''midterm_score'' \<mapsto> mid,
           ''final_score'' \<mapsto> fin,
           ''assignment_score'' \<mapsto> asm] ++ hist))))"
  using assms by (simp add: merged_record_def bind_err_def)

lemma merged_record_error:
  "merged_record ev f = Inl e \<Longrightarrow> try_body ev f = Inl e \<and> index ev POST f = error_response"
  by (simp add: try_body_def feature_frame_def bind_err_def index_def error_response_def)

lemma missing_key_fails:
  assumes "student_data_df ev = Table df"
    and "filter (\<lambda>r. student_id r = sid) df = []"
    and "required_fields ev f = Inr (sid, c, pre, cr, att)"
  shows "(\<not> truthy (f ''midterm'') \<and> ''past_avg_midterm_score'' \<notin> set (FEATURES ev) \<longrightarrow>
            merged_record ev f = Inl KeyError) \<and>
         (backfill_key_missing ev f \<longrightarrow> (\<exists>e. merged_record ev f = Inl e))"
proof -
  define hist where "hist = zero_fill (FEATURES ev)"
  have g: "get_history_features ev sid (Some c) = Inr hist"
    using assms(1,2) by (simp add: get_history_features_no_records hist_def)
  note m = merged_record_scores [OF assms(3) g]
  have z: "\<And>k. k \<notin> set (FEATURES ev) \<Longrightarrow> hist k = None"
    by (simp add: hist_def zero_fill_apply)
  have 1: "\<not> truthy (f ''midterm'') \<and> ''past_avg_midterm_score'' \<notin> set (FEATURES ev) \<longrightarrow>
            merged_record ev f = Inl KeyError"
    by (simp add: m score_or_history_missing z bind_err_def)
  have 2: "backfill_key_missing ev f \<longrightarrow> (\<exists>e. merged_record ev f = Inl e)"
  proof
    assume b: "backfill_key_missing ev f"
    show "\<exists>e. merged_record ev f = Inl e"
    proof (cases "score_or_history ev (f ''midterm'') hist ''past_avg_midterm_score''")
      case (Inl e)
      then show ?thesis by (simp add: m bind_err_def)
    next
      case mid: (Inr a)
      then have nm: "\<not> (\<not> truthy (f ''midterm'') \<and> ''past_avg_midterm_score'' \<notin> set (FEATURES ev))"
        using score_or_history_missing z by fastforce
      show ?thesis
      proof (cases "score_or_history ev (f ''final'') hist ''past_avg_final_score''")
        case (Inl e)
        with mid show ?thesis by (simp add: m bind_err_def)
      next
        case fin: (Inr b')
        then have nf: "\<not> (\<not> truthy (f ''final'') \<and> ''past_avg_final_score'' \<notin> set (FEATURES ev))"
          using score_or_history_missing z by fastforce
        from b nm nf have "\<not> truthy (f ''assignment'')"
          and "''past_avg_assignment_score'' \<notin> set (FEATURES ev)"
          unfolding backfill_key_missing_def by blast+
        then have "score_or_history ev (f ''assignment'') hist ''past_avg_assignment_score''
            = Inl KeyError"
          by (simp add: score_or_history_missing z)
        with mid fin show ?thesis by (simp add: m bind_err_def)
      qed
    qed
  qed
  from 1 2 show ?thesis by (rule conjI)
qed

subsection \<open>The keys of the two branches of \<open>get_history_features\<close>\<close>

text \<open>
  Claim C10, as the code has it. The two branches of \<open>get_history_features\<close> return
  different key sets. For a student with at least one record the result has the ten
  history-derived keys, whatever \<open>FEATURES\<close> is. For a student without records its
  keys are the entries of \<open>FEATURES\<close> that start with \<open>past_\<close> or are one of
  \<open>courses_taken\<close>, \<open>dept_pass_rate\<close>, \<open>prereq_avg_score\<close>, \<open>prereq_pass_rate\<close>: among
  the ten history-derived names exactly those that \<open>FEATURES\<close> lists, and besides
  them every other entry of \<open>FEATURES\<close> with the prefix \<open>past_\<close>. Hence, when
  \<open>FEATURES\<close> omits the \<open>past_avg_*\<close> name of an optional score and a student without
  records leaves that score out, the lookup of the backfill raises and the request ends
  with the error message instead of a prediction.
\<close>

theorem history_key_sets_differ:
  "(student_data_df ev = Table df \<longrightarrow> filter (\<lambda>r. student_id r = sid) df \<noteq> [] \<longrightarrow>
      get_history_features ev sid code = Inr feats \<longrightarrow> dom feats = set history_keys) \<and>
   (student_data_df ev = Table df \<longrightarrow> filter (\<lambda>r. student_id r = sid) df = [] \<longrightarrow>
      (\<exists>zs. get_history_features ev sid code = Inr zs \<and>
         dom zs = {k \<in> set (FEATURES ev). is_history_key k} \<and>
         dom zs \<inter> set history_keys = set (FEATURES ev) \<inter> set history_keys)) \<and>
   (student_data_df ev = Table df \<longrightarrow> filter (\<lambda>r. student_id r = sid) df = [] \<longrightarrow>
      required_fields ev f = Inr (sid, c, pre, cr, att) \<longrightarrow>
      (\<not> truthy (f ''midterm'') \<and> ''past_avg_midterm_score'' \<notin> set (FEATURES ev) \<longrightarrow>
         try_body ev f = Inl KeyError \<and> index ev POST f = error_response) \<and>
      (backfill_key_missing ev f \<longrightarrow>
         (\<exists>e. try_body ev f = Inl e) \<and> index ev POST f = error_response))"
proof (intro conjI impI)
  assume "student_data_df ev = Table df" and "filter (\<lambda>r. student_id r = sid) df \<noteq> []"
    and "get_history_features ev sid code = Inr feats"
  then obtain past d where
    "feats = prereq_feats past ((base_feats past)(''dept_pass_rate'' \<mapsto> d))"
    by (auto simp: get_history_features_records bind_err_def split: sum.splits)
  then show "dom feats = set history_keys"
    by (simp only: dom_history_feats)
next
  assume a: "student_data_df ev = Table df" and b: "filter (\<lambda>r. student_id r = sid) df = []"
  have g: "get_history_features ev sid code = Inr (zero_fill (FEATURES ev))"
    using a b by (rule get_history_features_no_records)
  have d: "dom (zero_fill (FEATURES ev)) = {k \<in> set (FEATURES ev). is_history_key k}"
    by (auto simp: dom_def zero_fill_apply)
  have "dom (zero_fill (FEATURES ev)) \<inter> set history_keys = set (FEATURES ev) \<inter> set history_keys"
    unfolding d using history_keys_are_history by blast
  with g d show "\<exists>zs. get_history_features ev sid code = Inr zs \<and>
         dom zs = {k \<in> set (FEATURES ev). is_history_key k} \<and>
         dom zs \<inter> set history_keys = set (FEATURES ev) \<inter> set history_keys"
    by blast
next
  assume a: "student_data_df ev = Table df" and b: "filter (\<lambda>r. student_id r = sid) df = []"
    and r: "required_fields ev f = Inr (sid, c, pre, cr, att)"
    and m: "\<not> truthy (f ''midterm'') \<and> ''past_avg_midterm_score'' \<notin> set (FEATURES ev)"
  from missing_key_fails [OF a b r] m have e: "merged_record ev f = Inl KeyError"
    by blast
  from merged_record_error [OF e] show "try_body ev f = Inl KeyError"
    and "index ev POST f = error_response"
    by simp_all
next
  assume a: "student_data_df ev = Table df" and b: "filter (\<lambda>r. student_id r = sid) df = []"
    and r: "required_fields ev f = Inr (sid, c, pre, cr, att)"
    and m: "backfill_key_missing ev f"
  from missing_key_fails [OF a b r] m obtain e where e: "merged_record ev f = Inl e"
    by blast
  from merged_record_error [OF e] show "\<exists>e. try_body ev f = Inl e"
    and "index ev POST f = error_response"
    by simp_all
qed

theorem history_key_sets_differ_witness:
  "(\<exists>feats. student_data_df scenario_env = Table math_rows \<and>
      filter (\<lambda>r. student_id r = 42) math_rows \<noteq> [] \<and>
      get_history_features scenario_env 42 (Some ''MATH 201'') = Inr feats \<and>
      dom feats = set history_keys) \<and>
   (\<exists>zs. student_data_df short_env = Table math_rows \<and>
      filter (\<lambda>r. student_id r = 7) math_rows = [] \<and>
      get_history_features short_env 7 (Some ''MATH 201'') = Inr zs \<and>
      dom zs = {''past_pass_rate'', ''courses_taken''}) \<and>
   required_fields short_env (request_of ''7'') = Inr (7, ''MATH 201'', 1, 3, 80) \<and>
   \<not> truthy (request_of ''7'' ''midterm'') \<and>
   ''past_avg_midterm_score'' \<notin> set (FEATURES short_env) \<and>
   backfill_key_missing short_env (request_of ''7'') \<and>
   try_body short_env (request_of ''7'') = Inl KeyError \<and>
   index short_env POST (request_of ''7'') = error_response"
proof -
  let ?f = "request_of ''7''"
  let ?c = "Some ''MATH 201''"
  have a: "student_data_df scenario_env = Table math_rows"
    by (simp add: env_defs)
  have b: "filter (\<lambda>r. student_id r = 42) math_rows \<noteq> []"
    by (simp add: env_defs)
  have "\<exists>feats. get_history_features scenario_env 42 ?c = Inr feats"
    by (simp add: env_defs history_defs)
  then obtain feats where c: "get_history_features scenario_env 42 ?c = Inr feats" ..
  have a': "student_data_df short_env = Table math_rows"
    by (simp add: env_defs)
  have b': "filter (\<lambda>r. student_id r = 7) math_rows = []"
    by (simp add: env_defs)
  have r: "required_fields short_env ?f = Inr (7, ''MATH 201'', 1, 3, 80)"
    by (simp add: env_defs index_defs bind_err_def is_space_def)
  have t: "\<not> truthy (?f ''midterm'')"
    by (simp add: request_of_def truthy_def)
  have n: "''past_avg_midterm_score'' \<notin> set (FEATURES short_env)"
    by (simp add: env_defs)
  from t n have k: "backfill_key_missing short_env ?f"
    by (simp add: backfill_key_missing_def)
  have s: "{k \<in> set (FEATURES short_env). is_history_key k} = {''past_pass_rate'', ''courses_taken''}"
  proof -
    have "{k \<in> set (FEATURES short_env). is_history_key k}
        = set (filter is_history_key (FEATURES short_env))"
      by simp
    also have "\<dots> = {''past_pass_rate'', ''courses_taken''}"
      by (simp add: env_defs is_history_key_def startswith_def)
    finally show ?thesis .
  qed
  note th1 = history_key_sets_differ [of scenario_env math_rows 42 ?c feats ?f "''MATH 201''" 1 3 80]
  note th2 = history_key_sets_differ [of short_env math_rows 7 ?c feats ?f "''MATH 201''" 1 3 80]
  from th1 [THEN conjunct1, rule_format, OF a b c]
  have d: "dom feats = set history_keys" .
  from th2 [THEN conjunct2, THEN conjunct1, rule_format, OF a' b'] obtain zs where
    z: "get_history_features short_env 7 ?c = Inr zs" and
    dz: "dom zs = {k \<in> set (FEATURES short_env). is_history_key k}"
    by (elim conjE exE)
  from th2 [THEN conjunct2, THEN conjunct2, THEN mp, THEN mp, THEN mp, OF a' b' r]
  have "\<not> truthy (?f ''midterm'') \<and> ''past_avg_midterm_score'' \<notin> set (FEATURES short_env) \<longrightarrow>
         try_body short_env ?f = Inl KeyError \<and> index short_env POST ?f = error_response"
    by (rule conjunct1)
  with t n have e: "try_body short_env ?f = Inl KeyError"
    and i: "index short_env POST ?f = error_response"
    by simp_all
  have dz': "dom zs = {''past_pass_rate'', ''courses_taken''}"
    by (simp only: dz s)
  have 1: "\<exists>feats. student_data_df scenario_env = Table math_rows \<and>
      filter (\<lambda>r. student_id r = 42) math_rows \<noteq> [] \<and>
      get_history_features scenario_env 42 ?c = Inr feats \<and>
      dom feats = set history_keys"
    by (rule exI [of _ feats], intro conjI) (rule a b c d)+
  have 2: "\<exists>zs. student_data_df short_env = Table math_rows \<and>
      filter (\<lambda>r. student_id r = 7) math_rows = [] \<and>
      get_history_features short_env 7 ?c = Inr zs \<and>
      dom zs = {''past_pass_rate'', ''courses_taken''}"
    by (rule exI [of _ zs], intro conjI) (rule a' b' z dz')+
  show ?thesis
    by (intro conjI) (rule 1 2 r t n k e i)+
qed

text \<open>
  The keys of a student without records are not always among the ten names: the entry
  \<open>past_gpa\<close> of the feature list is zero-filled as well.
\<close>

theorem no_history_extra_key:
  "student_data_df gpa_env = Table math_rows \<and>
   7 \<notin> set (map student_id math_rows) \<and>
   FEATURES gpa_env = [''credits'', ''past_gpa'', ''courses_taken''] \<and>
   get_history_features gpa_env 7 (Some ''MATH 201'') = Inr (zero_fill (FEATURES gpa_env)) \<and>
   zero_fill (FEATURES gpa_env) ''past_gpa'' = Some 0 \<and>
   ''past_gpa'' \<notin> set history_keys \<and>
   ''past_gpa'' \<notin> set (FEATURES gpa_env) \<inter> set history_keys"
  by (simp add: env_defs history_defs history_keys_def)

subsection \<open>Validation of the required fields\<close>

text \<open>
  Claim C3, as the code has it. The only validation of \<open>index\<close> is the conversion of
  the required fields. A request in which \<open>student_id\<close>, \<open>course_code\<close>,
  \<open>has_prerequisites\<close>, \<open>credits\<close> or \<open>attendance\<close> is missing, or in which \<open>int\<close>
  raises on \<open>student_id\<close> or \<open>has_prerequisites\<close>, or \<open>float\<close> raises on \<open>credits\<close>
  or \<open>attendance\<close>, ends with that exception before any feature is derived or scored:
  the response carries the error message and no prediction. These are the only
  requests that fail at this stage. No exception leaves \<open>index\<close>: every response is
  either the error response or a prediction with its probability.
\<close>

theorem invalid_required_rejected:
  "(invalid_required ev f \<longleftrightarrow> isl (required_fields ev f)) \<and>
   (required_fields ev f = Inl e \<longrightarrow>
      merged_record ev f = Inl e \<and> try_body ev f = Inl e \<and> index ev POST f = error_response) \<and>
   (invalid_required ev f \<longrightarrow> index ev POST f = error_response) \<and>
   (index ev POST f = error_response \<or>
    (\<exists>label proba. index ev POST f =
       \<lparr>prediction = Some label, probability = Some proba, flashed = []\<rparr>))"
proof -
  have 1: "invalid_required ev f \<longleftrightarrow> isl (required_fields ev f)"
    by (simp add: invalid_required_def conversion_raises_def required_fields_def bind_err_def
        form_item_def split: option.splits sum.splits)
  have 2: "required_fields ev f = Inl e \<longrightarrow>
      merged_record ev f = Inl e \<and> try_body ev f = Inl e \<and> index ev POST f = error_response"
  proof
    assume "required_fields ev f = Inl e"
    then have m: "merged_record ev f = Inl e"
      by (simp add: merged_record_def bind_err_def)
    with merged_record_error [OF m]
    show "merged_record ev f = Inl e \<and> try_body ev f = Inl e \<and> index ev POST f = error_response"
      by simp
  qed
  have 3: "invalid_required ev f \<longrightarrow> index ev POST f = error_response"
  proof
    assume "invalid_required ev f"
    with 1 obtain x where "required_fields ev f = Inl x"
      by (cases "required_fields ev f") simp_all
    then have "merged_record ev f = Inl x"
      by (simp add: merged_record_def bind_err_def)
    from merged_record_error [OF this] show "index ev POST f = error_response"
      by simp
  qed
  have 4: "index ev POST f = error_response \<or>
    (\<exists>label proba. index ev POST f =
       \<lparr>prediction = Some label, probability = Some proba, flashed = []\<rparr>)"
  proof (cases "try_body ev f")
    case (Inl x)
    then show ?thesis
      by (simp add: index_error)
  next
    case (Inr y)
    then show ?thesis
      by (cases y) (simp add: index_def)
  qed
  from 1 2 3 4 show ?thesis by (intro conjI)
qed

theorem invalid_required_rejected_witness:
  "to_int scenario_env ''4x'' = Inl ValueError \<and>
   invalid_required scenario_env (request_of ''4x'') \<and>
   required_fields scenario_env (request_of ''4x'') = Inl ValueError \<and>
   try_body scenario_env (request_of ''4x'') = Inl ValueError \<and>
   index scenario_env POST (request_of ''4x'') = error_response"
proof -
  let ?f = "request_of ''4x''"
  have c: "to_int scenario_env ''4x'' = Inl ValueError"
    by (simp add: env_defs)
  then have a: "invalid_required scenario_env ?f"
    by (simp add: invalid_required_def conversion_raises_def request_of_def)
  have r: "required_fields scenario_env ?f = Inl ValueError"
    by (simp add: c required_fields_def form_item_def bind_err_def request_of_def)
  note th = invalid_required_rejected [of scenario_env ?f ValueError]
  from th [THEN conjunct2, THEN conjunct1, THEN mp, OF r]
  have t: "try_body scenario_env ?f = Inl ValueError"
    by simp
  from th [THEN conjunct2, THEN conjunct2, THEN conjunct1, THEN mp, OF a]
  have i: "index scenario_env POST ?f = error_response" .
  show ?thesis
    by (intro conjI) (rule c a r t i)+
qed

text \<open>
  The value 2 for \<open>has_prerequisites\<close> and the empty course code are not rejected:
  both requests are scored.
\<close>

theorem unvalidated_inputs_scored:
  "to_int scenario_env ''2'' = Inr 2 \<and>
   index scenario_env POST ((request_of ''42'')(''has_prerequisites'' \<mapsto> ''2'')) =
     \<lparr>prediction = Some ''Yes'', probability = Some (1 / 2), flashed = []\<rparr> \<and>
   py_strip '''' = '''' \<and>
   index scenario_env POST ((request_of ''42'')(''course_code'' \<mapsto> '''')) =
     \<lparr>prediction = Some ''Yes'', probability = Some (1 / 2), flashed = []\<rparr>"
  by (simp add: env_defs history_defs index_defs)

end
